theory Spec2Isabelle
  imports Main "HOL-Library.Word"
begin

section \<open>The delegated routing server of \<open>repro.mjs\<close>\<close>

text \<open>
  The development embeds the two functions of \<open>src/repro.mjs\<close> that carry the
  routing directory: \<open>pubsubTopicToDhtKeyCid\<close> (lines 31--37) and
  \<open>createDelegatedRouterServer\<close> (lines 39--116) with its request handler
  (lines 43--84), \<open>getProviderQueryCount\<close> (lines 105--107) and
  \<open>announceProvider\<close> (lines 108--114).

  Conventions of the embedding.
  \<^item> A JavaScript string is modelled by the \<open>string\<close> of its UTF-8 bytes. The
    strings of the program are well formed (no lone surrogates), so this
    representation is one-to-one, and \<open>TextEncoder.encode\<close> returns exactly the
    bytes of the representation.
  \<^item> The closure variables \<open>providersByCid\<close> (a \<open>Map\<close>) and
    \<open>providerQueryCount\<close> are the fields of the record \<open>router\<close>, passed in and
    returned.
  \<^item> \<open>Date.now()\<close> is an input. The handler reads the clock twice (lines 65 and
    66), so it takes two readings.
  \<^item> Times are integers (milliseconds); the counter is a natural number.
    JavaScript numbers are doubles, exact on integers below \<open>2^53\<close>; every
    \<open>Date\<close> value plus the TTL stays below that bound.
  \<^item> A thrown exception is a value: the handler returns \<open>Thrown e\<close> when an
    exception leaves it, together with the state as mutated up to the throw.
  \<^item> \<open>console.log\<close> output is not modelled.
  \<^item> Functions of other packages and of the platform (\<open>URL\<close>, \<open>CID\<close>,
    \<open>Digest\<close>, \<open>sha256\<close>) are parameters, collected in the records
    \<open>externals\<close> and \<open>hashing\<close>. The ECMAScript built-in \<open>decodeURIComponent\<close> is modelled
    from its definition in ECMA-262.
\<close>

subsection \<open>Data\<close>

type_synonym byte = "8 word"

text \<open>The provider record that \<open>main\<close> passes to \<open>announceProvider\<close> (lines 203--207).\<close>

record ProviderRecord =
  ID :: string
  Addrs :: "string list"
  Protocols :: "string list"

text \<open>The value stored in \<open>providersByCid\<close> (lines 110--113).\<close>

record entry =
  peerRecord :: ProviderRecord
  expiresAt :: int

text \<open>The state of one server: the two closure variables of lines 40--41.\<close>

record router =
  providersByCid :: "string \<rightharpoonup> entry"
  providerQueryCount :: nat

text \<open>What the handler reads of the incoming request: \<open>req.method\<close>, \<open>req.url\<close>
  and \<open>req.headers.host\<close>; \<open>None\<close> is \<open>undefined\<close>.\<close>

record request =
  "method" :: string
  url :: "string option"
  host :: "string option"

text \<open>The three objects given to \<open>JSON.stringify\<close> (lines 60, 71, 77, 83).\<close>

datatype json_body = Providers "ProviderRecord list" | message string

datatype exn = TypeError | URIError | CIDError

text \<open>The result of one handler run: the status of \<open>res.writeHead\<close>, its headers
  and the body of \<open>res.end\<close>, or the exception that leaves the handler.\<close>

datatype outcome =
  Response nat "(string \<times> string) list" json_body
| Thrown exn

text \<open>The external functions of the server. \<open>URL_pathname input base\<close> is
  \<open>new URL(input, base).pathname\<close>, \<open>None\<close> when the constructor throws
  its \<open>TypeError\<close>; \<open>CID_parse\<close> is \<open>CID.parse\<close>, \<open>None\<close> when it
  throws; \<open>CID_toString\<close> is the method \<open>toString\<close> of a \<open>CID\<close>.\<close>

record 'cid externals =
  URL_pathname :: "string \<Rightarrow> string \<Rightarrow> string option"
  CID_parse :: "string \<Rightarrow> 'cid option"
  CID_toString :: "'cid \<Rightarrow> string"

text \<open>The external functions of the key derivation: \<open>sha256.array\<close>,
  \<open>Digest.create\<close> and \<open>CID.create\<close>.\<close>

record ('cid, 'digest) hashing =
  sha256_array :: "byte list \<Rightarrow> byte list"
  Digest_create :: "nat \<Rightarrow> byte list \<Rightarrow> 'digest"
  CID_create :: "nat \<Rightarrow> nat \<Rightarrow> 'digest \<Rightarrow> 'cid"

subsection \<open>Constants (lines 27--29)\<close>

definition PROVIDER_TTL_MS :: int where
  "PROVIDER_TTL_MS = 24 * 60 * 60 * 1000"

subsection \<open>\<open>decodeURIComponent\<close>\<close>

text \<open>
  The abstract operation \<open>Decode\<close> of ECMA-262 with an empty set of preserved
  escapes. A \<open>%\<close> must be followed by two hexadecimal digits, giving an octet
  \<open>B\<close>. With \<open>n\<close> the number of leading one bits of \<open>B\<close>: for \<open>n = 0\<close> the
  octet is the character; \<open>n = 1\<close> and \<open>n > 4\<close> throw; otherwise \<open>n - 1\<close>
  further escapes must follow and the \<open>n\<close> octets must be the UTF-8 encoding of
  a code point. \<open>None\<close> is the thrown \<open>URIError\<close>.
\<close>

definition hexDigit :: "char \<Rightarrow> nat option" where
  "hexDigit c =
     (let n = (of_char c :: nat) in
      if 48 \<le> n \<and> n \<le> 57 then Some (n - 48)
      else if 65 \<le> n \<and> n \<le> 70 then Some (n - 55)
      else if 97 \<le> n \<and> n \<le> 102 then Some (n - 87)
      else None)"

fun ParseHexOctet :: "string \<Rightarrow> nat option" where
  "ParseHexOctet [h, l] =
     (case hexDigit h of
        None \<Rightarrow> None
      | Some a \<Rightarrow> (case hexDigit l of None \<Rightarrow> None | Some b \<Rightarrow> Some (16 * a + b)))"
| "ParseHexOctet _ = None"

definition leadingOnes :: "nat \<Rightarrow> nat" where
  "leadingOnes B =
     (if B < 128 then 0 else if B < 192 then 1 else if B < 224 then 2
      else if B < 240 then 3 else if B < 248 then 4 else 5)"

text \<open>The \<open>j\<close> continuation escapes \<open>%XY\<close> at the front of a string.\<close>

fun continuationOctets :: "nat \<Rightarrow> string \<Rightarrow> nat list option" where
  "continuationOctets 0 s = Some []"
| "continuationOctets (Suc j) s =
     (if take 1 s \<noteq> ''%'' then None
      else case ParseHexOctet (take 2 (drop 1 s)) of
        None \<Rightarrow> None
      | Some b \<Rightarrow> map_option ((#) b) (continuationOctets j (drop 3 s)))"

definition cont :: "nat \<Rightarrow> bool" where
  "cont b \<longleftrightarrow> 128 \<le> b \<and> b \<le> 191"

text \<open>The well-formed UTF-8 sequences of two to four octets (Unicode, table 3-7).\<close>

fun validUtf8 :: "nat list \<Rightarrow> bool" where
  "validUtf8 [a, b] \<longleftrightarrow> 194 \<le> a \<and> a \<le> 223 \<and> cont b"
| "validUtf8 [a, b, c] \<longleftrightarrow>
     (a = 224 \<and> 160 \<le> b \<and> b \<le> 191
      \<or> 225 \<le> a \<and> a \<le> 236 \<and> cont b
      \<or> a = 237 \<and> 128 \<le> b \<and> b \<le> 159
      \<or> 238 \<le> a \<and> a \<le> 239 \<and> cont b) \<and> cont c"
| "validUtf8 [a, b, c, d] \<longleftrightarrow>
     (a = 240 \<and> 144 \<le> b \<and> b \<le> 191
      \<or> 241 \<le> a \<and> a \<le> 243 \<and> cont b
      \<or> a = 244 \<and> 128 \<le> b \<and> b \<le> 143) \<and> cont c \<and> cont d"
| "validUtf8 _ \<longleftrightarrow> False"

fun decodeURIComponent :: "string \<Rightarrow> string option" where
  "decodeURIComponent [] = Some []"
| "decodeURIComponent (C # cs) =
     (if C \<noteq> CHR ''%'' then map_option ((#) C) (decodeURIComponent cs)
      else case ParseHexOctet (take 2 cs) of
        None \<Rightarrow> None
      | Some B \<Rightarrow>
          (let n = leadingOnes B in
           if n = 0 then map_option ((#) (char_of B)) (decodeURIComponent (drop 2 cs))
           else if n = 1 \<or> 4 < n then None
           else case continuationOctets (n - 1) (drop 2 cs) of
             None \<Rightarrow> None
           | Some octets \<Rightarrow>
               if validUtf8 (B # octets)
               then map_option ((@) (map char_of (B # octets)))
                      (decodeURIComponent (drop (2 + 3 * (n - 1)) cs))
               else None))"

subsection \<open>\<open>pubsubTopicToDhtKeyCid\<close> (lines 31--37)\<close>

definition TextEncoder_encode :: "string \<Rightarrow> byte list" where
  "TextEncoder_encode s = map of_char s"

definition pubsubTopicToDhtKeyCid :: "('cid, 'digest) hashing \<Rightarrow> string \<Rightarrow> 'cid" where
  "pubsubTopicToDhtKeyCid lib pubsubTopic =
     (let stringToHash = ''floodsub:'' @ pubsubTopic;
          bytes = TextEncoder_encode stringToHash;
          hashBytes = sha256_array lib bytes;
          digest = Digest_create lib 0x12 hashBytes
      in CID_create lib 1 0x55 digest)"

subsection \<open>\<open>createDelegatedRouterServer\<close> (lines 39--116)\<close>

text \<open>The state at lines 40--41.\<close>

definition createDelegatedRouterServer :: router where
  "createDelegatedRouterServer = \<lparr>providersByCid = Map.empty, providerQueryCount = 0\<rparr>"

definition startsWith :: "string \<Rightarrow> string \<Rightarrow> bool" where
  "startsWith s p \<longleftrightarrow> take (length p) s = p"

definition jsonHeaders :: "(string \<times> string) list" where
  "jsonHeaders = [(''Content-Type'', ''application/json'')]"

text \<open>\<open>CID.parse(x).toString()\<close>, as written at lines 57 and 109; \<open>None\<close> when
  \<open>CID.parse\<close> throws.\<close>

definition normalizeCid :: "'cid externals \<Rightarrow> string \<Rightarrow> string option" where
  "normalizeCid ext x = map_option (CID_toString ext) (CID_parse ext x)"

text \<open>Lines 64--78: the directory lookup for a normalized identifier. \<open>now1\<close>
  is the clock reading of line 65, \<open>now2\<close> that of line 66.\<close>

definition lookupEntry :: "string \<Rightarrow> int \<Rightarrow> int \<Rightarrow> router \<Rightarrow> outcome \<times> router" where
  "lookupEntry normalizedCid now1 now2 s =
     (case providersByCid s normalizedCid of
        None \<Rightarrow> (Response 404 jsonHeaders (Providers []), s)
      | Some e \<Rightarrow>
          if expiresAt e \<le> now1
          then (Response 404 jsonHeaders (Providers []),
                if expiresAt e \<le> now2
                then s\<lparr>providersByCid := (providersByCid s)(normalizedCid := None)\<rparr>
                else s)
          else (Response 200 jsonHeaders (Providers [peerRecord e]), s))"

text \<open>Lines 43--84: the request handler.\<close>

definition baseUrl :: "request \<Rightarrow> string" where
  "baseUrl req = ''http://'' @ (case host req of None \<Rightarrow> ''undefined'' | Some h \<Rightarrow> h)"

text \<open>Line 45: \<open>new URL(req.url ?? "/", baseUrl).pathname\<close>.\<close>

definition pathnameOf :: "'cid externals \<Rightarrow> request \<Rightarrow> string option" where
  "pathnameOf ext req =
     URL_pathname ext (case url req of None \<Rightarrow> ''/'' | Some u \<Rightarrow> u) (baseUrl req)"

definition handler ::
  "'cid externals \<Rightarrow> request \<Rightarrow> int \<Rightarrow> int \<Rightarrow> router \<Rightarrow> outcome \<times> router" where
  "handler ext req now1 now2 s =
     (case pathnameOf ext req of
        None \<Rightarrow> (Thrown TypeError, s)
      | Some pathname \<Rightarrow>
          if method req = ''GET'' \<and> startsWith pathname ''/routing/v1/providers/''
          then
            (let s1 = s\<lparr>providerQueryCount := providerQueryCount s + 1\<rparr>;
                 cidPart = drop (length ''/routing/v1/providers/'') pathname
             in case decodeURIComponent cidPart of
                  None \<Rightarrow> (Thrown URIError, s1)
                | Some requestedCid \<Rightarrow>
                    (case normalizeCid ext requestedCid of
                       None \<Rightarrow> (Response 422 jsonHeaders (Providers []), s1)
                     | Some normalizedCid \<Rightarrow> lookupEntry normalizedCid now1 now2 s1))
          else (Response 404 jsonHeaders (message ''not found''), s))"

text \<open>Lines 105--107.\<close>

definition getProviderQueryCount :: "router \<Rightarrow> nat" where
  "getProviderQueryCount s = providerQueryCount s"

text \<open>Lines 108--114. \<open>now\<close> is the reading of \<open>Date.now()\<close> at line 112;
  \<open>Inl CIDError\<close> is the exception of \<open>CID.parse\<close> leaving the function.\<close>

definition announceProvider ::
  "'cid externals \<Rightarrow> 'cid \<Rightarrow> ProviderRecord \<Rightarrow> int \<Rightarrow> router \<Rightarrow> exn + router" where
  "announceProvider ext contentCid r now s =
     (case normalizeCid ext (CID_toString ext contentCid) of
        None \<Rightarrow> Inl CIDError
      | Some normalizedCid \<Rightarrow>
          Inr (s\<lparr>providersByCid := (providersByCid s)(normalizedCid \<mapsto>
                 \<lparr>peerRecord = r, expiresAt = now + PROVIDER_TTL_MS\<rparr>)\<rparr>))"

subsection \<open>Requests by what the handler does with them\<close>

text \<open>\<open>cidPart\<close> of line 52, for a request that passes the test of lines 47--50;
  \<open>None\<close> for every other request.\<close>

definition cidPartOf :: "'cid externals \<Rightarrow> request \<Rightarrow> string option" where
  "cidPartOf ext req =
     (case pathnameOf ext req of
        None \<Rightarrow> None
      | Some pathname \<Rightarrow>
          if method req = ''GET'' \<and> startsWith pathname ''/routing/v1/providers/''
          then Some (drop (length ''/routing/v1/providers/'') pathname)
          else None)"

text \<open>\<open>normalizedCid\<close> of line 57, for a request that reaches line 64.\<close>

definition requestedKey :: "'cid externals \<Rightarrow> request \<Rightarrow> string option" where
  "requestedKey ext req =
     (case cidPartOf ext req of
        None \<Rightarrow> None
      | Some part \<Rightarrow>
          (case decodeURIComponent part of
             None \<Rightarrow> None
           | Some requestedCid \<Rightarrow> normalizeCid ext requestedCid))"

subsection \<open>Runs of the server\<close>

text \<open>
  Node runs the handler and \<open>announceProvider\<close> one call at a time, each to its
  end. A run is the list of these calls with their clock readings. An
  \<open>announceProvider\<close> that throws does so at line 109, before the \<open>Map\<close> is
  touched, and leaves the state as it was.
\<close>

datatype 'cid event =
  Announce 'cid ProviderRecord int
| Request request int int

fun step :: "'cid externals \<Rightarrow> 'cid event \<Rightarrow> router \<Rightarrow> router" where
  "step ext (Announce c r now) s =
     (case announceProvider ext c r now s of Inl _ \<Rightarrow> s | Inr s' \<Rightarrow> s')"
| "step ext (Request req now1 now2) s = snd (handler ext req now1 now2 s)"

fun run :: "'cid externals \<Rightarrow> 'cid event list \<Rightarrow> router \<Rightarrow> router" where
  "run ext [] s = s"
| "run ext (ev # evs) s = run ext evs (step ext ev s)"

fun isRequest :: "'cid event \<Rightarrow> bool" where
  "isRequest (Request _ _ _) = True"
| "isRequest (Announce _ _ _) = False"

fun isLookup :: "'cid externals \<Rightarrow> 'cid event \<Rightarrow> bool" where
  "isLookup ext (Request req _ _) = (cidPartOf ext req \<noteq> None)"
| "isLookup ext (Announce _ _ _) = False"

subsection \<open>Sample values of the external functions\<close>

text \<open>
  The values of the external functions at a few arguments, to evaluate the server
  on concrete requests. A \<open>CID\<close> is represented by its \<open>toString\<close>.
  \<open>bafkqaaa\<close> and \<open>bafkqaaia\<close> are the version 1 identifiers with content
  type \<open>0x55\<close> and the identity multihash of the empty and of the one-byte
  sequence \<open>00\<close>; \<open>CID.parse\<close> accepts both and \<open>toString\<close> gives them back.
  \<open>new URL\<close> leaves the listed request targets as they are. At other arguments
  the sample is \<open>None\<close>; nothing is said there about the real functions.
\<close>

definition sampleTargets :: "string list" where
  "sampleTargets =
     [''/'', ''/routing/v1/providers'', ''/routing/v1/providers/bafkqaaa'',
      ''/routing/v1/providers/bafkqaaia'', ''/routing/v1/providers/not-a-cid'',
      ''/routing/v1/providers/%'', ''/routing/v1/providers/%E0%A4%A'']"

definition sampleExternals :: "string externals" where
  "sampleExternals =
     \<lparr>URL_pathname = (\<lambda>input base.
        if base = ''http://127.0.0.1:25150'' \<and> input \<in> set sampleTargets
        then Some input else None),
      CID_parse = (\<lambda>x. if x = ''bafkqaaa'' \<or> x = ''bafkqaaia'' then Some x else None),
      CID_toString = (\<lambda>c. c)\<rparr>"

definition sampleRequest :: "string \<Rightarrow> string \<Rightarrow> request" where
  "sampleRequest m target = \<lparr>method = m, url = Some target, host = Some ''127.0.0.1:25150''\<rparr>"

definition peerA :: ProviderRecord where
  "peerA = \<lparr>ID = ''peerA'', Addrs = [''/ip4/127.0.0.1/tcp/4001''], Protocols = []\<rparr>"

definition peerB :: ProviderRecord where
  "peerB = \<lparr>ID = ''peerB'', Addrs = [''/ip4/127.0.0.1/tcp/4002''], Protocols = []\<rparr>"

text \<open>The state after \<open>announceProvider\<close> of \<open>bafkqaaa\<close> with \<open>peerA\<close> at time 1000
  on a fresh server (lemma \<open>sample_announce\<close>).\<close>

definition announcedAt1000 :: router where
  "announcedAt1000 =
     \<lparr>providersByCid = [''bafkqaaa'' \<mapsto> \<lparr>peerRecord = peerA, expiresAt = 86401000\<rparr>],
      providerQueryCount = 0\<rparr>"

section \<open>Properties\<close>

subsection \<open>The branches of the handler\<close>

lemma handler_badurl:
  "pathnameOf ext req = None \<Longrightarrow> handler ext req now1 now2 s = (Thrown TypeError, s)"
  by (simp add: handler_def)

lemma handler_other:
  "pathnameOf ext req = Some p \<Longrightarrow> cidPartOf ext req = None \<Longrightarrow>
   handler ext req now1 now2 s = (Response 404 jsonHeaders (message ''not found''), s)"
  by (auto simp: handler_def cidPartOf_def split: if_splits)

lemma handler_malformed:
  "cidPartOf ext req = Some part \<Longrightarrow> decodeURIComponent part = None \<Longrightarrow>
   handler ext req now1 now2 s =
     (Thrown URIError, s\<lparr>providerQueryCount := providerQueryCount s + 1\<rparr>)"
  by (auto simp: handler_def cidPartOf_def split: if_splits option.splits)

lemma handler_invalid:
  "cidPartOf ext req = Some part \<Longrightarrow> decodeURIComponent part = Some x \<Longrightarrow>
   normalizeCid ext x = None \<Longrightarrow>
   handler ext req now1 now2 s =
     (Response 422 jsonHeaders (Providers []), s\<lparr>providerQueryCount := providerQueryCount s + 1\<rparr>)"
  by (auto simp: handler_def cidPartOf_def split: if_splits option.splits)

lemma handler_lookup:
  "requestedKey ext req = Some k \<Longrightarrow>
   handler ext req now1 now2 s =
     lookupEntry k now1 now2 (s\<lparr>providerQueryCount := providerQueryCount s + 1\<rparr>)"
  by (auto simp: handler_def requestedKey_def cidPartOf_def split: if_splits option.splits)

lemma sample_cidPartOf:
  "t \<in> set sampleTargets \<Longrightarrow> cidPartOf sampleExternals (sampleRequest ''GET'' t) =
     (if startsWith t ''/routing/v1/providers/''
      then Some (drop (length ''/routing/v1/providers/'') t) else None)"
  by (simp add: cidPartOf_def pathnameOf_def baseUrl_def sampleExternals_def sampleRequest_def)

lemma decode_percent: "decodeURIComponent ''%'' = None"
  by simp

lemma decode_truncated: "decodeURIComponent ''%E0%A4%A'' = None"
  by code_simp

lemma lookupEntry_outcome:
  "fst (lookupEntry k now1 now2 s) =
     (case providersByCid s k of
        None \<Rightarrow> Response 404 jsonHeaders (Providers [])
      | Some e \<Rightarrow>
          if now1 < expiresAt e then Response 200 jsonHeaders (Providers [peerRecord e])
          else Response 404 jsonHeaders (Providers []))"
  by (simp add: lookupEntry_def split: option.splits)

lemma lookupEntry_count:
  "providerQueryCount (snd (lookupEntry k now1 now2 s)) = providerQueryCount s"
  by (simp add: lookupEntry_def split: option.splits)

lemma lookupEntry_dir:
  "providersByCid (snd (lookupEntry k now1 now2 s)) =
     (case providersByCid s k of
        None \<Rightarrow> providersByCid s
      | Some e \<Rightarrow>
          if expiresAt e \<le> now1 \<and> expiresAt e \<le> now2 then (providersByCid s)(k := None)
          else providersByCid s)"
  by (simp add: lookupEntry_def split: option.splits)

lemma handler_count:
  "providerQueryCount (snd (handler ext req now1 now2 s)) =
     providerQueryCount s + (if cidPartOf ext req = None then 0 else 1)"
  by (auto simp: handler_def cidPartOf_def lookupEntry_count Let_def split: option.splits)

lemma handler_dir_lookup:
  "requestedKey ext req = Some k \<Longrightarrow>
   providersByCid (snd (handler ext req now1 now2 s)) =
     (case providersByCid s k of
        None \<Rightarrow> providersByCid s
      | Some e \<Rightarrow>
          if expiresAt e \<le> now1 \<and> expiresAt e \<le> now2 then (providersByCid s)(k := None)
          else providersByCid s)"
  by (simp add: handler_lookup lookupEntry_dir split: option.splits)

lemma handler_dir_no_key:
  "requestedKey ext req = None \<Longrightarrow>
   providersByCid (snd (handler ext req now1 now2 s)) = providersByCid s"
  by (auto simp: handler_def requestedKey_def cidPartOf_def split: option.splits if_splits)

lemma handler_dir_other:
  "requestedKey ext req \<noteq> Some k' \<Longrightarrow>
   providersByCid (snd (handler ext req now1 now2 s)) k' = providersByCid s k'"
proof (cases "requestedKey ext req")
  case None
  then show ?thesis by (simp add: handler_dir_no_key)
next
  case (Some k)
  assume "requestedKey ext req \<noteq> Some k'"
  with Some have "k \<noteq> k'" by simp
  with Some show ?thesis by (simp add: handler_dir_lookup split: option.splits)
qed

lemma handler_no_insert:
  "providersByCid s k = None \<Longrightarrow> providersByCid (snd (handler ext req now1 now2 s)) k = None"
proof (cases "requestedKey ext req")
  case None
  assume "providersByCid s k = None"
  with None show ?thesis by (simp add: handler_dir_no_key)
next
  case (Some k')
  assume "providersByCid s k = None"
  with Some show ?thesis by (simp add: handler_dir_lookup split: option.splits)
qed

lemma run_requests_no_insert:
  "list_all isRequest evs \<Longrightarrow> providersByCid s k = None \<Longrightarrow>
   providersByCid (run ext evs s) k = None"
proof (induction evs arbitrary: s)
  case Nil
  then show ?case by simp
next
  case (Cons ev evs)
  from Cons.prems(1) obtain req n1 n2 where ev: "ev = Request req n1 n2"
    by (cases ev) auto
  from Cons.prems(2) have "providersByCid (step ext ev s) k = None"
    by (simp add: ev handler_no_insert)
  with Cons.IH Cons.prems(1) show ?case by simp
qed

lemma announceProvider_ok:
  "normalizeCid ext (CID_toString ext c) = Some k \<Longrightarrow>
   announceProvider ext c r now s =
     Inr (s\<lparr>providersByCid := (providersByCid s)(k \<mapsto>
            \<lparr>peerRecord = r, expiresAt = now + PROVIDER_TTL_MS\<rparr>)\<rparr>)"
  by (simp add: announceProvider_def)

lemma announceProvider_throws:
  "normalizeCid ext (CID_toString ext c) = None \<Longrightarrow>
   announceProvider ext c r now s = Inl CIDError"
  by (simp add: announceProvider_def)

lemma step_count:
  "providerQueryCount (step ext ev s) = providerQueryCount s + (if isLookup ext ev then 1 else 0)"
proof (cases ev)
  case (Announce c r now)
  then show ?thesis
    by (cases "normalizeCid ext (CID_toString ext c)")
      (simp_all add: announceProvider_ok announceProvider_throws)
next
  case (Request req n1 n2)
  then show ?thesis by (simp add: handler_count)
qed

lemma run_count:
  "providerQueryCount (run ext evs s) = providerQueryCount s + length (filter (isLookup ext) evs)"
  by (induction evs arbitrary: s) (simp_all add: step_count)

lemma handler_outcome:
  assumes "pathnameOf ext req = Some pathname"
  shows "fst (handler ext req now1 now2 s) =
     (if method req = ''GET'' \<and> startsWith pathname ''/routing/v1/providers/''
      then case decodeURIComponent (drop (length ''/routing/v1/providers/'') pathname) of
             None \<Rightarrow> Thrown URIError
           | Some requestedCid \<Rightarrow>
               (case normalizeCid ext requestedCid of
                  None \<Rightarrow> Response 422 jsonHeaders (Providers [])
                | Some k \<Rightarrow>
                    (case providersByCid s k of
                       None \<Rightarrow> Response 404 jsonHeaders (Providers [])
                     | Some e \<Rightarrow>
                         if now1 < expiresAt e
                         then Response 200 jsonHeaders (Providers [peerRecord e])
                         else Response 404 jsonHeaders (Providers [])))
      else Response 404 jsonHeaders (message ''not found''))"
  using assms
  by (simp add: handler_def Let_def lookupEntry_outcome split: option.splits)

lemma sample_requestedKey:
  "requestedKey sampleExternals (sampleRequest ''GET'' ''/routing/v1/providers/bafkqaaa'')
     = Some ''bafkqaaa''"
  "requestedKey sampleExternals (sampleRequest ''GET'' ''/routing/v1/providers/bafkqaaia'')
     = Some ''bafkqaaia''"
  by (simp_all add: requestedKey_def cidPartOf_def pathnameOf_def baseUrl_def sampleRequest_def
      sampleTargets_def startsWith_def normalizeCid_def sampleExternals_def)

lemma sample_normalizeCid:
  "normalizeCid sampleExternals (CID_toString sampleExternals ''bafkqaaa'') = Some ''bafkqaaa''"
  "normalizeCid sampleExternals (CID_toString sampleExternals ''bafkqaaia'') = Some ''bafkqaaia''"
  by (simp_all add: normalizeCid_def sampleExternals_def)

lemma sample_announce:
  "announceProvider sampleExternals ''bafkqaaa'' peerA 1000 createDelegatedRouterServer
     = Inr announcedAt1000"
  by (simp add: announceProvider_ok [OF sample_normalizeCid(1)] createDelegatedRouterServer_def
      announcedAt1000_def PROVIDER_TTL_MS_def)

lemma sample_cidPartOf_values:
  "cidPartOf sampleExternals (sampleRequest ''GET'' ''/routing/v1/providers/bafkqaaa'')
     = Some ''bafkqaaa''"
  "cidPartOf sampleExternals (sampleRequest ''GET'' ''/routing/v1/providers/bafkqaaia'')
     = Some ''bafkqaaia''"
  "cidPartOf sampleExternals (sampleRequest ''GET'' ''/routing/v1/providers/not-a-cid'')
     = Some ''not-a-cid''"
  "cidPartOf sampleExternals (sampleRequest ''GET'' ''/routing/v1/providers/%'') = Some ''%''"
  "cidPartOf sampleExternals (sampleRequest ''GET'' ''/routing/v1/providers'') = None"
  "cidPartOf sampleExternals (sampleRequest ''POST'' ''/routing/v1/providers/bafkqaaa'') = None"
  by (simp_all add: cidPartOf_def pathnameOf_def baseUrl_def sampleRequest_def
      sampleTargets_def startsWith_def sampleExternals_def)

text \<open>The scenario of the specification on the sample: a provider, no provider,
  an identifier that does not parse, and two requests off the route.\<close>

lemma sample_outcomes:
  "fst (handler sampleExternals (sampleRequest ''GET'' ''/routing/v1/providers/bafkqaaa'')
          2000 2000 announcedAt1000) = Response 200 jsonHeaders (Providers [peerA])"
  "fst (handler sampleExternals (sampleRequest ''GET'' ''/routing/v1/providers/bafkqaaia'')
          2000 2000 announcedAt1000) = Response 404 jsonHeaders (Providers [])"
  "fst (handler sampleExternals (sampleRequest ''GET'' ''/routing/v1/providers/not-a-cid'')
          2000 2000 announcedAt1000) = Response 422 jsonHeaders (Providers [])"
  "fst (handler sampleExternals (sampleRequest ''GET'' ''/routing/v1/providers'')
          2000 2000 announcedAt1000) = Response 404 jsonHeaders (message ''not found'')"
  "fst (handler sampleExternals (sampleRequest ''POST'' ''/routing/v1/providers/bafkqaaa'')
          2000 2000 announcedAt1000) = Response 404 jsonHeaders (message ''not found'')"
  by (simp_all add: handler_def pathnameOf_def baseUrl_def sampleRequest_def sampleTargets_def
      startsWith_def normalizeCid_def sampleExternals_def lookupEntry_def announcedAt1000_def)

lemma card_entries_le_1: "card {e. (m :: 'k \<rightharpoonup> 'v) k = Some e} \<le> 1"
proof (cases "m k")
  case None
  then show ?thesis by simp
next
  case (Some v)
  then have "{e. m k = Some e} = {v}" by auto
  then show ?thesis by simp
qed

lemma step_key:
  assumes "providersByCid (step ext ev s) k \<noteq> None"
  shows "providersByCid s k \<noteq> None \<or> (\<exists>x. normalizeCid ext x = Some k)"
proof (cases ev)
  case (Announce c r now)
  show ?thesis
  proof (cases "normalizeCid ext (CID_toString ext c)")
    case None
    with Announce assms show ?thesis by (simp add: announceProvider_throws)
  next
    case (Some k')
    show ?thesis
    proof (cases "k = k'")
      case True
      with Some show ?thesis by blast
    next
      case False
      with Some Announce assms show ?thesis by (simp add: announceProvider_ok)
    qed
  qed
next
  case (Request req n1 n2)
  with assms have after: "providersByCid (snd (handler ext req n1 n2 s)) k \<noteq> None"
    by simp
  have "providersByCid s k \<noteq> None"
  proof
    assume "providersByCid s k = None"
    then have "providersByCid (snd (handler ext req n1 n2 s)) k = None"
      by (rule handler_no_insert)
    with after show False by simp
  qed
  then show ?thesis ..
qed

lemma run_key:
  "providersByCid (run ext evs s) k \<noteq> None \<Longrightarrow>
   providersByCid s k \<noteq> None \<or> (\<exists>x. normalizeCid ext x = Some k)"
proof (induction evs arbitrary: s)
  case Nil
  then show ?case by simp
next
  case (Cons ev evs)
  from Cons.prems have "providersByCid (run ext evs (step ext ev s)) k \<noteq> None"
    by simp
  then have "providersByCid (step ext ev s) k \<noteq> None \<or> (\<exists>x. normalizeCid ext x = Some k)"
    by (rule Cons.IH)
  then show ?case using step_key [of ext ev s k] by blast
qed

subsection \<open>Malformed escapes\<close>

text \<open>
  Claim C2 says that every request, also one whose identifier segment is a
  malformed percent-encoding, is answered with a status and a JSON body and that no
  exception leaves the handler. The code does otherwise: \<open>decodeURIComponent\<close>
  is called at line 53, before the \<open>try\<close> of line 56. For every request on the
  providers route whose segment \<open>decodeURIComponent\<close> rejects, the handler
  writes no response, the \<open>URIError\<close> leaves it, and the counter has already
  been incremented.
\<close>

theorem malformed_escape_throws:
  assumes "cidPartOf ext req = Some part" and "decodeURIComponent part = None"
  shows "handler ext req now1 now2 s =
           (Thrown URIError, s\<lparr>providerQueryCount := providerQueryCount s + 1\<rparr>)"
  using assms by (rule handler_malformed)

theorem malformed_escape_throws_witness:
  "cidPartOf sampleExternals (sampleRequest ''GET'' ''/routing/v1/providers/%E0%A4%A'')
     = Some ''%E0%A4%A'' \<and>
   decodeURIComponent ''%E0%A4%A'' = None \<and>
   handler sampleExternals (sampleRequest ''GET'' ''/routing/v1/providers/%E0%A4%A'') 0 0
       createDelegatedRouterServer
     = (Thrown URIError, createDelegatedRouterServer\<lparr>providerQueryCount := 1\<rparr>)"
proof -
  have p: "cidPartOf sampleExternals (sampleRequest ''GET'' ''/routing/v1/providers/%E0%A4%A'')
     = Some ''%E0%A4%A''"
    by (simp add: sample_cidPartOf sampleTargets_def startsWith_def)
  show ?thesis
    using malformed_escape_throws [OF p decode_truncated, of 0 0 createDelegatedRouterServer] p
      decode_truncated
    by (simp add: createDelegatedRouterServer_def)
qed

text \<open>
  Claim C1 says that every request gets one of four responses: 200 with one
  provider, 404 with no provider, 422 with no provider when the identifier
  fails to parse, and 404 \<open>not found\<close> off the route. For the requests whose
  \<open>URL\<close> is built and whose segment percent-decodes, \<open>handler_outcome\<close>
  shows exactly these four. The claim fails on the providers route at the
  identifier \<open>%\<close>, which is no content identifier: the request gets none of the
  four responses, and no response at all, because the \<open>URIError\<close> of line 53
  leaves the handler.
\<close>

theorem bare_percent_gets_no_response:
  assumes "method req = ''GET''"
      and "pathnameOf ext req = Some ''/routing/v1/providers/%''"
  shows "fst (handler ext req now1 now2 s) = Thrown URIError"
  using assms by (simp add: handler_outcome startsWith_def)

theorem bare_percent_gets_no_response_witness:
  "method (sampleRequest ''GET'' ''/routing/v1/providers/%'') = ''GET'' \<and>
   pathnameOf sampleExternals (sampleRequest ''GET'' ''/routing/v1/providers/%'')
     = Some ''/routing/v1/providers/%'' \<and>
   fst (handler sampleExternals (sampleRequest ''GET'' ''/routing/v1/providers/%'') 0 0
          createDelegatedRouterServer) = Thrown URIError"
proof -
  have m: "method (sampleRequest ''GET'' ''/routing/v1/providers/%'') = ''GET''"
    by (simp add: sampleRequest_def)
  have p: "pathnameOf sampleExternals (sampleRequest ''GET'' ''/routing/v1/providers/%'')
     = Some ''/routing/v1/providers/%''"
    by (simp add: pathnameOf_def baseUrl_def sampleExternals_def sampleRequest_def
        sampleTargets_def)
  from bare_percent_gets_no_response [OF m p] m p show ?thesis by simp
qed

subsection \<open>Time to live\<close>

text \<open>
  Claim C3, amended. \<open>announceProvider\<close> takes no TTL: the TTL is the constant
  \<open>PROVIDER_TTL_MS\<close> of 86 400 000 ms. For every identifier \<open>c\<close> whose
  serialization parses, with \<open>k\<close> its normalized form, every record \<open>r\<close>, time
  \<open>t0\<close> and state: after \<open>announceProvider\<close> at \<open>t0\<close>, a lookup request for
  \<open>k\<close> at \<open>t0 + PROVIDER_TTL_MS - 1\<close> is answered 200 with exactly \<open>r\<close>, and at
  \<open>t0 + PROVIDER_TTL_MS + 1\<close> it is answered 404 with no provider. In every state a
  lookup request for \<open>k\<close> returns the stored record exactly when an entry for
  \<open>k\<close> exists and the clock reading of line 65 is below its \<open>expiresAt\<close>, and
  no provider otherwise.
\<close>

theorem ttl_correctness:
  assumes "normalizeCid ext (CID_toString ext c) = Some k"
      and "requestedKey ext req = Some k"
  shows "\<exists>s1. announceProvider ext c r t0 s = Inr s1 \<and>
           fst (handler ext req (t0 + PROVIDER_TTL_MS - 1) now2 s1)
             = Response 200 jsonHeaders (Providers [r]) \<and>
           fst (handler ext req (t0 + PROVIDER_TTL_MS + 1) now2' s1)
             = Response 404 jsonHeaders (Providers []) \<and>
           PROVIDER_TTL_MS = 86400000 \<and>
           (\<forall>s' now1 now2''.
              fst (handler ext req now1 now2'' s') =
                (case providersByCid s' k of
                   None \<Rightarrow> Response 404 jsonHeaders (Providers [])
                 | Some e \<Rightarrow>
                     if now1 < expiresAt e
                     then Response 200 jsonHeaders (Providers [peerRecord e])
                     else Response 404 jsonHeaders (Providers [])))"
proof -
  let ?s1 = "s\<lparr>providersByCid := (providersByCid s)(k \<mapsto>
               \<lparr>peerRecord = r, expiresAt = t0 + PROVIDER_TTL_MS\<rparr>)\<rparr>"
  have a: "announceProvider ext c r t0 s = Inr ?s1"
    using assms(1) by (rule announceProvider_ok)
  have g: "fst (handler ext req now1 n2 s') =
      (case providersByCid s' k of
         None \<Rightarrow> Response 404 jsonHeaders (Providers [])
       | Some e \<Rightarrow>
           if now1 < expiresAt e
           then Response 200 jsonHeaders (Providers [peerRecord e])
           else Response 404 jsonHeaders (Providers []))" for s' now1 n2
    using assms(2) by (simp add: handler_lookup lookupEntry_outcome)
  have live: "fst (handler ext req (t0 + PROVIDER_TTL_MS - 1) now2 ?s1)
      = Response 200 jsonHeaders (Providers [r])"
    by (simp add: g)
  have dead: "fst (handler ext req (t0 + PROVIDER_TTL_MS + 1) now2' ?s1)
      = Response 404 jsonHeaders (Providers [])"
    by (simp add: g)
  have ttl: "PROVIDER_TTL_MS = 86400000"
    by (simp add: PROVIDER_TTL_MS_def)
  from a live dead ttl g show ?thesis by blast
qed


theorem ttl_correctness_witness:
  "normalizeCid sampleExternals (CID_toString sampleExternals ''bafkqaaa'') = Some ''bafkqaaa'' \<and>
   requestedKey sampleExternals (sampleRequest ''GET'' ''/routing/v1/providers/bafkqaaa'')
     = Some ''bafkqaaa'' \<and>
   (\<exists>s1. announceProvider sampleExternals ''bafkqaaa'' peerA 5 createDelegatedRouterServer = Inr s1 \<and>
      fst (handler sampleExternals (sampleRequest ''GET'' ''/routing/v1/providers/bafkqaaa'')
             (5 + PROVIDER_TTL_MS - 1) (5 + PROVIDER_TTL_MS - 1) s1)
        = Response 200 jsonHeaders (Providers [peerA]) \<and>
      fst (handler sampleExternals (sampleRequest ''GET'' ''/routing/v1/providers/bafkqaaa'')
             (5 + PROVIDER_TTL_MS + 1) (5 + PROVIDER_TTL_MS + 1) s1)
        = Response 404 jsonHeaders (Providers []))"
  using ttl_correctness [OF sample_normalizeCid(1) sample_requestedKey(1),
      of peerA 5 createDelegatedRouterServer "5 + PROVIDER_TTL_MS - 1" "5 + PROVIDER_TTL_MS + 1"]
    sample_normalizeCid(1) sample_requestedKey(1)
  by blast

text \<open>
  Claim C3 as stated, for every TTL \<open>T\<close>, fails at \<open>T = 1000\<close> and \<open>t0 = 0\<close>:
  the entry announced at 0 expires at 86 400 000, and the lookup at
  \<open>t0 + T + 1 = 1001\<close> still returns the record.
\<close>

theorem ttl_of_caller_counterexample:
  "announceProvider sampleExternals ''bafkqaaa'' peerA 0 createDelegatedRouterServer
     = Inr \<lparr>providersByCid = [''bafkqaaa'' \<mapsto> \<lparr>peerRecord = peerA, expiresAt = 86400000\<rparr>],
            providerQueryCount = 0\<rparr> \<and>
   fst (handler sampleExternals (sampleRequest ''GET'' ''/routing/v1/providers/bafkqaaa'')
          (0 + 1000 + 1) (0 + 1000 + 1)
          \<lparr>providersByCid = [''bafkqaaa'' \<mapsto> \<lparr>peerRecord = peerA, expiresAt = 86400000\<rparr>],
           providerQueryCount = 0\<rparr>)
     = Response 200 jsonHeaders (Providers [peerA]) \<and>
   Response 200 jsonHeaders (Providers [peerA]) \<noteq> Response 404 jsonHeaders (Providers [])"
  by (simp add: announceProvider_ok [OF sample_normalizeCid(1)] createDelegatedRouterServer_def
      PROVIDER_TTL_MS_def handler_lookup [OF sample_requestedKey(1)] lookupEntry_def)

subsection \<open>Eviction on read\<close>

text \<open>
  Claim C4. If a lookup request for \<open>k\<close> finds the entry of \<open>k\<close> expired at
  its first clock reading, and the clock does not run backwards between the two
  readings of lines 65 and 66, then the request is answered 404 with no
  provider and the entry is removed by this very call. After any further
  requests, at any times and for any identifiers, with no announcement among them,
  the entry is still absent and a lookup request for \<open>k\<close> is answered 404 with
  no provider. In no state does a lookup request for \<open>k\<close> return an expired
  record: a 200 answer carries the record of an entry whose \<open>expiresAt\<close> is above
  the clock reading of line 65.
\<close>

theorem eviction_on_read:
  assumes "requestedKey ext req = Some k"
      and "providersByCid s k = Some e"
      and "expiresAt e \<le> now1"
      and "now1 \<le> now2"
      and "list_all isRequest evs"
      and "requestedKey ext req' = Some k"
  shows "fst (handler ext req now1 now2 s) = Response 404 jsonHeaders (Providers []) \<and>
         providersByCid (snd (handler ext req now1 now2 s)) k = None \<and>
         providersByCid (run ext evs (snd (handler ext req now1 now2 s))) k = None \<and>
         fst (handler ext req' t1 t2 (run ext evs (snd (handler ext req now1 now2 s))))
           = Response 404 jsonHeaders (Providers []) \<and>
         (\<forall>s0 n1 n2 hs b. fst (handler ext req' n1 n2 s0) = Response 200 hs b \<longrightarrow>
            (\<exists>e0. providersByCid s0 k = Some e0 \<and> n1 < expiresAt e0 \<and>
                  b = Providers [peerRecord e0]))"
proof -
  let ?s' = "snd (handler ext req now1 now2 s)"
  have first: "fst (handler ext req now1 now2 s) = Response 404 jsonHeaders (Providers [])"
    using assms(1-3) by (simp add: handler_lookup lookupEntry_outcome)
  from assms(3,4) have "expiresAt e \<le> now2" by simp
  with assms(1-3) have gone: "providersByCid ?s' k = None"
    by (simp add: handler_dir_lookup)
  from assms(5) gone have later: "providersByCid (run ext evs ?s') k = None"
    by (rule run_requests_no_insert)
  from assms(6) later
  have again: "fst (handler ext req' t1 t2 (run ext evs ?s'))
      = Response 404 jsonHeaders (Providers [])"
    by (simp add: handler_lookup lookupEntry_outcome)
  have live: "\<exists>e0. providersByCid s0 k = Some e0 \<and> n1 < expiresAt e0 \<and>
      b = Providers [peerRecord e0]"
    if "fst (handler ext req' n1 n2 s0) = Response 200 hs b" for s0 n1 n2 hs b
    using that assms(6)
    by (auto simp: handler_lookup lookupEntry_outcome split: option.splits if_splits)
  from first gone later again live show ?thesis by blast
qed

theorem eviction_on_read_witness:
  "requestedKey sampleExternals (sampleRequest ''GET'' ''/routing/v1/providers/bafkqaaa'')
     = Some ''bafkqaaa'' \<and>
   providersByCid announcedAt1000 ''bafkqaaa'' = Some \<lparr>peerRecord = peerA, expiresAt = 86401000\<rparr> \<and>
   expiresAt \<lparr>peerRecord = peerA, expiresAt = 86401000\<rparr> \<le> 86401000 \<and>
   (86401000 :: int) \<le> 86401001 \<and>
   list_all isRequest
     [Request (sampleRequest ''GET'' ''/'') 86401002 86401002,
      Request (sampleRequest ''GET'' ''/routing/v1/providers/bafkqaaia'') 86401003 86401003] \<and>
   fst (handler sampleExternals (sampleRequest ''GET'' ''/routing/v1/providers/bafkqaaa'')
          86401000 86401001 announcedAt1000)
     = Response 404 jsonHeaders (Providers []) \<and>
   providersByCid
     (snd (handler sampleExternals (sampleRequest ''GET'' ''/routing/v1/providers/bafkqaaa'')
             86401000 86401001 announcedAt1000)) ''bafkqaaa'' = None \<and>
   fst (handler sampleExternals (sampleRequest ''GET'' ''/routing/v1/providers/bafkqaaa'')
          86401004 86401004
          (run sampleExternals
             [Request (sampleRequest ''GET'' ''/'') 86401002 86401002,
              Request (sampleRequest ''GET'' ''/routing/v1/providers/bafkqaaia'') 86401003 86401003]
             (snd (handler sampleExternals
                     (sampleRequest ''GET'' ''/routing/v1/providers/bafkqaaa'')
                     86401000 86401001 announcedAt1000))))
     = Response 404 jsonHeaders (Providers [])"
proof -
  have e: "providersByCid announcedAt1000 ''bafkqaaa''
      = Some \<lparr>peerRecord = peerA, expiresAt = 86401000\<rparr>"
    by (simp add: announcedAt1000_def)
  have x: "expiresAt \<lparr>peerRecord = peerA, expiresAt = 86401000\<rparr> \<le> 86401000"
    by simp
  have m: "(86401000 :: int) \<le> 86401001"
    by simp
  have r: "list_all isRequest
     [Request (sampleRequest ''GET'' ''/'') 86401002 86401002,
      Request (sampleRequest ''GET'' ''/routing/v1/providers/bafkqaaia'') 86401003 86401003]"
    by simp
  from eviction_on_read [OF sample_requestedKey(1) e x m r sample_requestedKey(1),
      of 86401004 86401004] sample_requestedKey(1) e x m r
  show ?thesis by simp
qed

subsection \<open>Overwriting\<close>

text \<open>
  Claim C5. Two announcements for identifiers with the same normalized form
  \<open>k\<close>, first of \<open>r1\<close> and then of \<open>r2\<close>, both succeed and leave under \<open>k\<close>
  the one entry of \<open>r2\<close> with the expiry of the second announcement: the state is
  the one that the second announcement alone produces, so nothing of \<open>r1\<close> is
  kept or merged, and a lookup request for \<open>k\<close> before that expiry is answered
  200 with exactly \<open>r2\<close>. In every state reached from the fresh server by
  announcements and requests, every key has at most one entry, and every key
  that has an entry is a normalized identifier, a result of
  \<open>CID.parse(x).toString()\<close>.
\<close>

theorem overwrite_semantics:
  assumes "normalizeCid ext (CID_toString ext c1) = Some k"
      and "normalizeCid ext (CID_toString ext c2) = Some k"
      and "requestedKey ext req = Some k"
      and "now1 < t2 + PROVIDER_TTL_MS"
  shows "\<exists>s1 s2. announceProvider ext c1 r1 t1 s = Inr s1 \<and>
           announceProvider ext c2 r2 t2 s1 = Inr s2 \<and>
           providersByCid s2 k = Some \<lparr>peerRecord = r2, expiresAt = t2 + PROVIDER_TTL_MS\<rparr> \<and>
           announceProvider ext c2 r2 t2 s = Inr s2 \<and>
           fst (handler ext req now1 now2 s2) = Response 200 jsonHeaders (Providers [r2]) \<and>
           card {e. providersByCid s2 k = Some e} = 1 \<and>
           (\<forall>evs k'. card {e. providersByCid (run ext evs createDelegatedRouterServer) k' = Some e}
              \<le> 1) \<and>
           (\<forall>evs k'. providersByCid (run ext evs createDelegatedRouterServer) k' \<noteq> None \<longrightarrow>
              (\<exists>x. normalizeCid ext x = Some k'))"
proof -
  let ?e1 = "\<lparr>peerRecord = r1, expiresAt = t1 + PROVIDER_TTL_MS\<rparr>"
  let ?e2 = "\<lparr>peerRecord = r2, expiresAt = t2 + PROVIDER_TTL_MS\<rparr>"
  let ?s1 = "s\<lparr>providersByCid := (providersByCid s)(k \<mapsto> ?e1)\<rparr>"
  let ?s2 = "s\<lparr>providersByCid := (providersByCid s)(k \<mapsto> ?e2)\<rparr>"
  have a1: "announceProvider ext c1 r1 t1 s = Inr ?s1"
    using assms(1) by (rule announceProvider_ok)
  have a2: "announceProvider ext c2 r2 t2 ?s1 = Inr ?s2"
    by (simp add: announceProvider_ok [OF assms(2)])
  have a3: "announceProvider ext c2 r2 t2 s = Inr ?s2"
    using assms(2) by (rule announceProvider_ok)
  have m: "providersByCid ?s2 k = Some ?e2"
    by simp
  have h: "fst (handler ext req now1 now2 ?s2) = Response 200 jsonHeaders (Providers [r2])"
    using assms(3,4) by (simp add: handler_lookup lookupEntry_outcome)
  have "{e. providersByCid ?s2 k = Some e} = {?e2}"
    by auto
  then have c: "card {e. providersByCid ?s2 k = Some e} = 1"
    by simp
  have one: "card {e. providersByCid (run ext evs createDelegatedRouterServer) k' = Some e} \<le> 1"
    for evs k'
    by (rule card_entries_le_1)
  have canon: "\<exists>x. normalizeCid ext x = Some k'"
    if "providersByCid (run ext evs createDelegatedRouterServer) k' \<noteq> None" for evs k'
    using run_key [OF that] by (simp add: createDelegatedRouterServer_def)
  from a1 a2 a3 m h c one canon show ?thesis by blast
qed


theorem overwrite_semantics_witness:
  "normalizeCid sampleExternals (CID_toString sampleExternals ''bafkqaaa'') = Some ''bafkqaaa'' \<and>
   requestedKey sampleExternals (sampleRequest ''GET'' ''/routing/v1/providers/bafkqaaa'')
     = Some ''bafkqaaa'' \<and>
   (2500 :: int) < 2000 + PROVIDER_TTL_MS \<and>
   (\<exists>s1 s2.
      announceProvider sampleExternals ''bafkqaaa'' peerA 1000 createDelegatedRouterServer = Inr s1 \<and>
      announceProvider sampleExternals ''bafkqaaa'' peerB 2000 s1 = Inr s2 \<and>
      providersByCid s2 ''bafkqaaa''
        = Some \<lparr>peerRecord = peerB, expiresAt = 2000 + PROVIDER_TTL_MS\<rparr> \<and>
      fst (handler sampleExternals (sampleRequest ''GET'' ''/routing/v1/providers/bafkqaaa'')
             2500 2500 s2)
        = Response 200 jsonHeaders (Providers [peerB]))"
proof -
  have t: "(2500 :: int) < 2000 + PROVIDER_TTL_MS"
    by (simp add: PROVIDER_TTL_MS_def)
  from overwrite_semantics [OF sample_normalizeCid(1) sample_normalizeCid(1)
      sample_requestedKey(1) t, of peerA 1000 createDelegatedRouterServer peerB 2500]
    sample_normalizeCid(1) sample_requestedKey(1) t
  show ?thesis by blast
qed

subsection \<open>The request counter\<close>

text \<open>
  Claim C6. One handler run increases \<open>getProviderQueryCount\<close> by exactly 1 when
  the request is a \<open>GET\<close> on the providers route, whatever the outcome (a
  provider, no provider, an identifier that does not parse, or the exception of
  a malformed escape: the increment of line 51 comes first), and by 0 for every
  other request. Over a run of announcements and requests the counter grows by
  the number of such requests; it never decreases.
\<close>

theorem counter_monotonicity:
  "getProviderQueryCount (snd (handler ext req now1 now2 s))
     = getProviderQueryCount s + (if cidPartOf ext req = None then 0 else 1) \<and>
   getProviderQueryCount (run ext evs s)
     = getProviderQueryCount s + length (filter (isLookup ext) evs) \<and>
   getProviderQueryCount s \<le> getProviderQueryCount (run ext evs s)"
  by (simp add: getProviderQueryCount_def handler_count run_count)

theorem counter_monotonicity_witness:
  "getProviderQueryCount
     (snd (handler sampleExternals (sampleRequest ''GET'' ''/routing/v1/providers/bafkqaaa'')
             2000 2000 announcedAt1000)) = 1 \<and>
   getProviderQueryCount
     (snd (handler sampleExternals (sampleRequest ''GET'' ''/routing/v1/providers/bafkqaaia'')
             2000 2000 announcedAt1000)) = 1 \<and>
   getProviderQueryCount
     (snd (handler sampleExternals (sampleRequest ''GET'' ''/routing/v1/providers/not-a-cid'')
             2000 2000 announcedAt1000)) = 1 \<and>
   getProviderQueryCount
     (snd (handler sampleExternals (sampleRequest ''GET'' ''/routing/v1/providers/%'')
             2000 2000 announcedAt1000)) = 1 \<and>
   getProviderQueryCount
     (snd (handler sampleExternals (sampleRequest ''GET'' ''/routing/v1/providers'')
             2000 2000 announcedAt1000)) = 0 \<and>
   getProviderQueryCount
     (snd (handler sampleExternals (sampleRequest ''POST'' ''/routing/v1/providers/bafkqaaa'')
             2000 2000 announcedAt1000)) = 0"
proof -
  have z: "getProviderQueryCount announcedAt1000 = 0"
    by (simp add: getProviderQueryCount_def announcedAt1000_def)
  have c: "getProviderQueryCount (snd (handler sampleExternals req 2000 2000 announcedAt1000))
      = getProviderQueryCount announcedAt1000 + (if cidPartOf sampleExternals req = None then 0 else 1)"
    for req
    using counter_monotonicity [of sampleExternals req 2000 2000 announcedAt1000 "[]"] by blast
  show ?thesis
    by (simp add: c z sample_cidPartOf_values)
qed

subsection \<open>Key derivation\<close>

text \<open>
  Claim C7. For every topic \<open>t\<close>, \<open>pubsubTopicToDhtKeyCid\<close> returns the
  identifier that \<open>CID.create\<close> builds with version 1 and content type
  \<open>0x55\<close> around the digest that \<open>Digest.create\<close> builds with hash code
  \<open>0x12\<close> from \<open>sha256.array\<close> of the UTF-8 bytes of \<open>floodsub:\<close> followed
  by \<open>t\<close>, and its canonical string is the \<open>toString\<close> of that identifier. The
  value depends on the topic alone: the function reads and writes no state.
\<close>

theorem key_derivation:
  "pubsubTopicToDhtKeyCid lib t =
     CID_create lib 1 0x55
       (Digest_create lib 0x12 (sha256_array lib (TextEncoder_encode (''floodsub:'' @ t)))) \<and>
   CID_toString ext (pubsubTopicToDhtKeyCid lib t) =
     CID_toString ext
       (CID_create lib 1 0x55
          (Digest_create lib 0x12 (sha256_array lib (TextEncoder_encode (''floodsub:'' @ t))))) \<and>
   TextEncoder_encode (''floodsub:'' @ t) =
     [0x66, 0x6C, 0x6F, 0x6F, 0x64, 0x73, 0x75, 0x62, 0x3A] @ TextEncoder_encode t"
  by (simp add: pubsubTopicToDhtKeyCid_def TextEncoder_encode_def)

subsection \<open>The contract of \<open>announceProvider\<close>\<close>

text \<open>
  Claim C8, amended. \<open>announceProvider\<close> at clock reading \<open>now\<close> inserts or
  overwrites the entry for the normalized form of the identifier with
  \<open>expiresAt = now + 86400000\<close>; it succeeds for every record and every
  identifier whose serialization \<open>CID.parse\<close> accepts. The TTL is the module
  constant \<open>PROVIDER_TTL_MS\<close> of 24 hours; it is no argument of
  \<open>announceProvider\<close> or of \<open>createDelegatedRouterServer\<close> and cannot be
  supplied by a caller.
\<close>

theorem announce_contract:
  assumes "normalizeCid ext (CID_toString ext c) = Some k"
  shows "announceProvider ext c r now s =
           Inr (s\<lparr>providersByCid := (providersByCid s)(k \<mapsto>
                  \<lparr>peerRecord = r, expiresAt = now + 86400000\<rparr>)\<rparr>) \<and>
         PROVIDER_TTL_MS = 24 * 60 * 60 * 1000"
  using assms by (simp add: announceProvider_ok PROVIDER_TTL_MS_def)

theorem announce_contract_witness:
  "normalizeCid sampleExternals (CID_toString sampleExternals ''bafkqaaa'') = Some ''bafkqaaa'' \<and>
   announceProvider sampleExternals ''bafkqaaa'' peerA 1000 createDelegatedRouterServer
     = Inr \<lparr>providersByCid = [''bafkqaaa'' \<mapsto> \<lparr>peerRecord = peerA, expiresAt = 86401000\<rparr>],
            providerQueryCount = 0\<rparr>"
  using announce_contract [OF sample_normalizeCid(1), of peerA 1000 createDelegatedRouterServer]
    sample_normalizeCid(1)
  by (simp add: createDelegatedRouterServer_def)

text \<open>
  Claim C8 as stated lets a caller supply a shorter TTL. With a TTL of 1000 at
  time 0 the claim asks for an entry that expires at \<open>0 + 1000\<close>; the state that
  \<open>announceProvider\<close> returns is another one.
\<close>

theorem shorter_ttl_counterexample:
  "announceProvider sampleExternals ''bafkqaaa'' peerA 0 createDelegatedRouterServer
     \<noteq> Inr \<lparr>providersByCid = [''bafkqaaa'' \<mapsto> \<lparr>peerRecord = peerA, expiresAt = 0 + 1000\<rparr>],
             providerQueryCount = 0\<rparr>"
proof
  assume "announceProvider sampleExternals ''bafkqaaa'' peerA 0 createDelegatedRouterServer
     = Inr \<lparr>providersByCid = [''bafkqaaa'' \<mapsto> \<lparr>peerRecord = peerA, expiresAt = 0 + 1000\<rparr>],
            providerQueryCount = 0\<rparr>"
  then have "[''bafkqaaa'' \<mapsto> \<lparr>peerRecord = peerA, expiresAt = 0 + PROVIDER_TTL_MS\<rparr>]
      = [''bafkqaaa'' \<mapsto> \<lparr>peerRecord = peerA, expiresAt = 0 + 1000\<rparr>]"
    by (simp add: announceProvider_ok [OF sample_normalizeCid(1)] createDelegatedRouterServer_def)
  then have "\<lparr>peerRecord = peerA, expiresAt = 0 + PROVIDER_TTL_MS\<rparr>
      = \<lparr>peerRecord = peerA, expiresAt = 0 + 1000\<rparr>"
    by (rule map_upd_eqD1)
  then show False by (simp add: PROVIDER_TTL_MS_def)
qed

subsection \<open>Frame properties\<close>

text \<open>
  Claim C10. An announcement for an identifier with normalized form \<open>k\<close> leaves
  the entry of every other key and the request counter as they were; the
  counter is the same after every announcement, also one that throws. A lookup
  request for \<open>k\<close> leaves
  the entry of every other key as it was. A request answered 200 leaves the
  whole directory as it was. A lookup request that finds the entry of \<open>k\<close>
  expired, the clock not running backwards between its two readings, removes
  the key \<open>k\<close> and nothing else. A request that reaches no lookup leaves the
  whole directory as it was.
\<close>

theorem frame_property:
  "(normalizeCid ext (CID_toString ext c) = Some k \<longrightarrow>
      (\<exists>s'. announceProvider ext c r now s = Inr s' \<and>
         (\<forall>k'. k' \<noteq> k \<longrightarrow> providersByCid s' k' = providersByCid s k') \<and>
         providerQueryCount s' = providerQueryCount s)) \<and>
   providerQueryCount (step ext (Announce c r now) s) = providerQueryCount s \<and>
   (requestedKey ext req = Some k \<longrightarrow>
      (\<forall>k'. k' \<noteq> k \<longrightarrow>
         providersByCid (snd (handler ext req now1 now2 s)) k' = providersByCid s k')) \<and>
   (\<forall>hs b. fst (handler ext req now1 now2 s) = Response 200 hs b \<longrightarrow>
      providersByCid (snd (handler ext req now1 now2 s)) = providersByCid s) \<and>
   (requestedKey ext req = Some k \<and> providersByCid s k = Some e \<and>
    expiresAt e \<le> now1 \<and> now1 \<le> now2 \<longrightarrow>
      providersByCid (snd (handler ext req now1 now2 s)) = (providersByCid s)(k := None)) \<and>
   (requestedKey ext req = None \<longrightarrow>
      providersByCid (snd (handler ext req now1 now2 s)) = providersByCid s)"
proof -
  have announce: "\<exists>s'. announceProvider ext c r now s = Inr s' \<and>
      (\<forall>k'. k' \<noteq> k \<longrightarrow> providersByCid s' k' = providersByCid s k') \<and>
      providerQueryCount s' = providerQueryCount s"
    if "normalizeCid ext (CID_toString ext c) = Some k"
    using that by (simp add: announceProvider_ok)
  have counter: "providerQueryCount (step ext (Announce c r now) s) = providerQueryCount s"
    using step_count [of ext "Announce c r now" s] by simp
  have others: "providersByCid (snd (handler ext req now1 now2 s)) k' = providersByCid s k'"
    if "requestedKey ext req = Some k" and "k' \<noteq> k" for k'
    using that by (simp add: handler_dir_other)
  have hit: "providersByCid (snd (handler ext req now1 now2 s)) = providersByCid s"
    if ok: "fst (handler ext req now1 now2 s) = Response 200 hs b" for hs b
  proof (cases "requestedKey ext req")
    case None
    then show ?thesis by (rule handler_dir_no_key)
  next
    case (Some k0)
    with ok have "fst (lookupEntry k0 now1 now2
        (s\<lparr>providerQueryCount := providerQueryCount s + 1\<rparr>)) = Response 200 hs b"
      by (simp add: handler_lookup)
    then have "\<exists>e0. providersByCid s k0 = Some e0 \<and> now1 < expiresAt e0"
      by (auto simp: lookupEntry_outcome split: option.splits if_splits)
    with Some show ?thesis by (auto simp: handler_dir_lookup)
  qed
  have expired: "providersByCid (snd (handler ext req now1 now2 s)) = (providersByCid s)(k := None)"
    if "requestedKey ext req = Some k \<and> providersByCid s k = Some e \<and>
        expiresAt e \<le> now1 \<and> now1 \<le> now2"
    using that by (simp add: handler_dir_lookup)
  have nokey: "providersByCid (snd (handler ext req now1 now2 s)) = providersByCid s"
    if "requestedKey ext req = None"
    using that by (rule handler_dir_no_key)
  from announce counter others hit expired nokey show ?thesis by blast
qed


theorem frame_property_witness:
  "normalizeCid sampleExternals (CID_toString sampleExternals ''bafkqaaia'') = Some ''bafkqaaia'' \<and>
   (\<exists>s'. announceProvider sampleExternals ''bafkqaaia'' peerB 2000 announcedAt1000 = Inr s' \<and>
      providersByCid s' ''bafkqaaa'' = providersByCid announcedAt1000 ''bafkqaaa'' \<and>
      providerQueryCount s' = providerQueryCount announcedAt1000) \<and>
   requestedKey sampleExternals (sampleRequest ''GET'' ''/routing/v1/providers/bafkqaaia'')
     = Some ''bafkqaaia'' \<and>
   providersByCid
     (snd (handler sampleExternals (sampleRequest ''GET'' ''/routing/v1/providers/bafkqaaia'')
             3000 3000 announcedAt1000)) ''bafkqaaa''
     = providersByCid announcedAt1000 ''bafkqaaa'' \<and>
   fst (handler sampleExternals (sampleRequest ''GET'' ''/routing/v1/providers/bafkqaaa'')
          3000 3000 announcedAt1000) = Response 200 jsonHeaders (Providers [peerA]) \<and>
   providersByCid
     (snd (handler sampleExternals (sampleRequest ''GET'' ''/routing/v1/providers/bafkqaaa'')
             3000 3000 announcedAt1000))
     = providersByCid announcedAt1000 \<and>
   providersByCid
     (snd (handler sampleExternals (sampleRequest ''GET'' ''/routing/v1/providers/bafkqaaa'')
             86401000 86401000 announcedAt1000))
     = (providersByCid announcedAt1000)(''bafkqaaa'' := None)"
proof -
  let ?get = "sampleRequest ''GET'' ''/routing/v1/providers/bafkqaaa''"
  let ?other = "sampleRequest ''GET'' ''/routing/v1/providers/bafkqaaia''"
  let ?e = "\<lparr>peerRecord = peerA, expiresAt = 86401000\<rparr>"
  have ne: "''bafkqaaa'' \<noteq> ''bafkqaaia''"
    by simp
  have hit: "fst (handler sampleExternals ?get 3000 3000 announcedAt1000)
      = Response 200 jsonHeaders (Providers [peerA])"
    by (simp add: handler_lookup [OF sample_requestedKey(1)] lookupEntry_outcome
        announcedAt1000_def)
  have old: "requestedKey sampleExternals ?get = Some ''bafkqaaa'' \<and>
      providersByCid announcedAt1000 ''bafkqaaa'' = Some ?e \<and>
      expiresAt ?e \<le> 86401000 \<and> (86401000 :: int) \<le> 86401000"
    by (simp add: sample_requestedKey(1) announcedAt1000_def)
  note a = frame_property [of sampleExternals "''bafkqaaia''" "''bafkqaaia''" peerB 2000
      announcedAt1000 ?other 3000 3000 ?e]
  note b = frame_property [of sampleExternals "''bafkqaaa''" "''bafkqaaa''" peerA 1000
      announcedAt1000 ?get 3000 3000 ?e]
  note c = frame_property [of sampleExternals "''bafkqaaa''" "''bafkqaaa''" peerA 1000
      announcedAt1000 ?get 86401000 86401000 ?e]
  have c0: "normalizeCid sampleExternals (CID_toString sampleExternals ''bafkqaaia'')
      = Some ''bafkqaaia''"
    by (rule sample_normalizeCid(2))
  from a [THEN conjunct1, THEN mp, OF sample_normalizeCid(2)]
  obtain s' where s': "announceProvider sampleExternals ''bafkqaaia'' peerB 2000 announcedAt1000
        = Inr s'"
      "\<forall>k'. k' \<noteq> ''bafkqaaia'' \<longrightarrow> providersByCid s' k' = providersByCid announcedAt1000 k'"
      "providerQueryCount s' = providerQueryCount announcedAt1000"
    by (elim exE conjE)
  from s'(2) ne have "providersByCid s' ''bafkqaaa'' = providersByCid announcedAt1000 ''bafkqaaa''"
    by (elim allE impE)
  with s'(1,3)
  have c1: "\<exists>s'. announceProvider sampleExternals ''bafkqaaia'' peerB 2000 announcedAt1000 = Inr s' \<and>
      providersByCid s' ''bafkqaaa'' = providersByCid announcedAt1000 ''bafkqaaa'' \<and>
      providerQueryCount s' = providerQueryCount announcedAt1000"
    by (intro exI conjI)
  have k2: "requestedKey sampleExternals ?other = Some ''bafkqaaia''"
    by (rule sample_requestedKey(2))
  have c2: "providersByCid (snd (handler sampleExternals ?other 3000 3000 announcedAt1000))
      ''bafkqaaa'' = providersByCid announcedAt1000 ''bafkqaaa''"
    by (rule a [THEN conjunct2, THEN conjunct2, THEN conjunct1, THEN mp,
          OF sample_requestedKey(2), THEN spec, THEN mp, OF ne])
  have c3: "providersByCid (snd (handler sampleExternals ?get 3000 3000 announcedAt1000))
      = providersByCid announcedAt1000"
    by (rule b [THEN conjunct2, THEN conjunct2, THEN conjunct2, THEN conjunct1,
          THEN spec, THEN spec, THEN mp, OF hit])
  have c4: "providersByCid (snd (handler sampleExternals ?get 86401000 86401000 announcedAt1000))
      = (providersByCid announcedAt1000)(''bafkqaaa'' := None)"
    by (rule c [THEN conjunct2, THEN conjunct2, THEN conjunct2, THEN conjunct2,
          THEN conjunct1, THEN mp, OF old])
  show ?thesis
    by (intro conjI) (rule c0 c1 k2 c2 hit c3 c4)+
qed

end
